theory Spec2Isabelle
  imports Main "HOL-Library.Sublist" "HOL-Library.Multiset"
begin

section \<open>JavaToolInstaller: the installation orchestrator\<close>

text \<open>
  A shallow embedding of the task script \<^verbatim>\<open>src/unnamed/part_000\<close> (the Java tool
  installer of azure-pipelines-tasks). Every function of the script is a HOL function
  of the same name. A thrown \<^verbatim>\<open>Error\<close> is the \<open>Inl\<close> branch of a sum; the file system,
  the task variables and the effects issued through the task library are threaded
  through as an explicit state.
\<close>

subsection \<open>Constants of the script\<close>

definition supportedFileEndings :: "string list" where
  "supportedFileEndings = [''.tar'', ''.tar.gz'', ''.zip'', ''.7z'', ''.dmg'', ''.pkg'']"

definition VOLUMES_FOLDER :: string where
  "VOLUMES_FOLDER = ''/Volumes''"

definition JDK_FOLDER :: string where
  "JDK_FOLDER = ''/Library/Java/JavaVirtualMachines''"

definition JDK_HOME_FOLDER :: string where
  "JDK_HOME_FOLDER = ''Contents/Home''"

subsection \<open>Data\<close>

text \<open>
  A \<^verbatim>\<open>ToolRunner\<close> of the task library: the program to start and the argument lines
  added with \<^verbatim>\<open>.line(...)\<close>, in order.
\<close>

datatype toolrunner = ToolRunner string "string list"

text \<open>
  What \<^verbatim>\<open>ToolRunner.exec()\<close> observes of the child process: it ran and exited with a
  code, or it could not be started at all. The promise of \<^verbatim>\<open>exec\<close> rejects in every case
  but \<open>Exit 0\<close>.
\<close>

datatype exec_outcome = Exit int | SpawnFailed

datatype error =
    UnsupportedFileExtension
  | UnsupportedDMGStructure
  | NoPKGFile
  | SeveralPKGFiles
  | PkgPathDoesNotExist
  | JavaNotPreinstalled string
  | InputRequired string
  | ExecFailed toolrunner exec_outcome
  | ReaddirFailed string
  | TypeError
  | External string

datatype task_result = Succeeded | Failed error

datatype event =
    ConsoleLog string "string list"
  | Debug string
  | TaskError error
  | Exec toolrunner
  | Sleep nat
  | SetVariable string "string option"
  | PrependPath string
  | SetResult task_result

text \<open>
  The file system as the script observes it: \<^verbatim>\<open>fs.readdirSync\<close> (\<open>None\<close> where it
  throws) and \<^verbatim>\<open>fs.existsSync\<close>.
\<close>

record fsys =
  readdirSync :: "string \<Rightarrow> string list option"
  existsSync :: "string \<Rightarrow> bool"

record state =
  files :: fsys
  variables :: "string \<Rightarrow> string option"
  trace :: "event list"

text \<open>
  What the script takes from its host and its collaborators: the platform, the task
  inputs, Node's \<^verbatim>\<open>path.join\<close> of the host platform, the effect of starting an external
  program on the file system, and the modules that are imported by the script but are
  not part of it (the archive extractor with its \<^verbatim>\<open>BIN_FOLDER\<close>, the Azure downloader,
  the tool cache, \<^verbatim>\<open>rmRF\<close>).
\<close>

record ext =
  platform :: string
  inputs :: "string \<Rightarrow> string option"
  boolInputs :: "string \<Rightarrow> bool"
  which :: "string \<Rightarrow> string"
  path_join :: "string list \<Rightarrow> string"
  exec_tool :: "toolrunner \<Rightarrow> fsys \<Rightarrow> exec_outcome \<times> fsys"
  unzipJavaDownload :: "string \<Rightarrow> string \<Rightarrow> string \<Rightarrow> fsys \<Rightarrow> (error + string) \<times> fsys"
  downloadArtifacts :: "string list \<Rightarrow> string \<Rightarrow> string \<Rightarrow> fsys \<Rightarrow> (error + unit) \<times> fsys"
  findLocalToolVersions :: "string \<Rightarrow> fsys \<Rightarrow> string list"
  evaluateVersions :: "string list \<Rightarrow> string \<Rightarrow> string"
  rmRF :: "string \<Rightarrow> fsys \<Rightarrow> (error + unit) \<times> fsys"
  BIN_FOLDER :: string

subsection \<open>Library calls\<close>

definition emit :: "event \<Rightarrow> state \<Rightarrow> state" where
  "emit e s = s\<lparr>trace := trace s @ [e]\<rparr>"

text \<open>\<^verbatim>\<open>String.prototype.endsWith\<close>: the last \<open>length ending\<close> characters are \<open>ending\<close>.\<close>

definition endsWith :: "string \<Rightarrow> string \<Rightarrow> bool" where
  "endsWith file ending \<longleftrightarrow>
     length ending \<le> length file \<and> drop (length file - length ending) file = ending"

text \<open>
  \<^verbatim>\<open>taskLib.getInput(name, true)\<close>: a required input that is missing or empty throws.
  \<^verbatim>\<open>taskLib.getInput(name, false)\<close> is \<open>inputs x name\<close>, \<open>None\<close> for \<^verbatim>\<open>undefined\<close>.
\<close>

definition getInputRequired :: "ext \<Rightarrow> string \<Rightarrow> error + string" where
  "getInputRequired x name =
     (case inputs x name of
        None \<Rightarrow> Inl (InputRequired name)
      | Some v \<Rightarrow> (if v = [] then Inl (InputRequired name) else Inr v))"

text \<open>How JavaScript prints a string that may be \<^verbatim>\<open>undefined\<close>.\<close>

definition js_string :: "string option \<Rightarrow> string" where
  "js_string v = (case v of None \<Rightarrow> ''undefined'' | Some w \<Rightarrow> w)"

definition tool :: "string \<Rightarrow> toolrunner" where
  "tool t = ToolRunner t []"

text \<open>\<^verbatim>\<open>ToolRunner.line\<close> ignores an empty line.\<close>

fun line :: "toolrunner \<Rightarrow> string \<Rightarrow> toolrunner" where
  "line (ToolRunner t as) val = (if val = [] then ToolRunner t as else ToolRunner t (as @ [val]))"

definition quoted :: "string \<Rightarrow> string" where
  "quoted p = CHR 0x22 # p @ [CHR 0x22]"

text \<open>
  \<^verbatim>\<open>await tr.exec()\<close>: the program acts on the file system; the call is recorded; the
  promise rejects unless the program exited with code 0.
\<close>

definition exec :: "ext \<Rightarrow> toolrunner \<Rightarrow> state \<Rightarrow> (error + unit) \<times> state" where
  "exec x tr s =
     (case exec_tool x tr (files s) of
        (out, fs') \<Rightarrow>
          (if out = Exit 0 then Inr () else Inl (ExecFailed tr out),
           emit (Exec tr) (s\<lparr>files := fs'\<rparr>)))"

text \<open>
  \<^verbatim>\<open>taskLib.setVariable(name, val)\<close>: the call is recorded with the value it was given
  (\<open>None\<close> for \<^verbatim>\<open>undefined\<close>); the library stores \<^verbatim>\<open>val || ''\<close>.
\<close>

definition setVariable :: "string \<Rightarrow> string option \<Rightarrow> state \<Rightarrow> state" where
  "setVariable name val s =
     emit (SetVariable name val)
       (s\<lparr>variables := (variables s)(name := Some (case val of None \<Rightarrow> [] | Some v \<Rightarrow> v))\<rparr>)"

subsection \<open>The script\<close>

text \<open>
  The expression \<^verbatim>\<open>fs.readdirSync(D).filter(e => !before.has(e))\<close> of \<^verbatim>\<open>getVolumePath\<close>
  and \<^verbatim>\<open>installPkg\<close>, where \<^verbatim>\<open>before = new Set(fs.readdirSync(D))\<close> was taken earlier.
\<close>

definition new_entries :: "string list \<Rightarrow> string list \<Rightarrow> string list" where
  "new_entries before after = filter (\<lambda>e. e \<notin> set before) after"

definition getSupportedFileEnding :: "string \<Rightarrow> error + string" where
  "getSupportedFileEnding file =
     (case find (\<lambda>ending. endsWith file ending) supportedFileEndings of
        Some fileEnding \<Rightarrow>
          (if fileEnding \<noteq> [] then Inr fileEnding else Inl UnsupportedFileExtension)
      | None \<Rightarrow> Inl UnsupportedFileExtension)"

definition sudo :: "ext \<Rightarrow> string \<Rightarrow> toolrunner" where
  "sudo x toolName =
     (if platform x = ''win32'' then tool toolName
      else line (tool ''sudo'') (which x toolName))"

definition attach_cmd :: "ext \<Rightarrow> string \<Rightarrow> toolrunner" where
  "attach_cmd x sourceFile = line (sudo x ''hdiutil'') (''attach '' @ quoted sourceFile)"

definition attach :: "ext \<Rightarrow> string \<Rightarrow> state \<Rightarrow> (error + unit) \<times> state" where
  "attach x sourceFile s =
     exec x (attach_cmd x sourceFile) (emit (ConsoleLog ''AttachDiskImage'' []) s)"

definition installer_cmd :: "ext \<Rightarrow> string \<Rightarrow> toolrunner" where
  "installer_cmd x pkgPath =
     line (sudo x ''installer'') (''-package '' @ quoted pkgPath @ '' -target /'')"

text \<open>The \<^verbatim>\<open>try\<close> block spans the whole body, so no error leaves \<^verbatim>\<open>runPkgInstaller\<close>.\<close>

definition runPkgInstaller :: "ext \<Rightarrow> string \<Rightarrow> state \<Rightarrow> state" where
  "runPkgInstaller x pkgPath s =
     (case exec x (installer_cmd x pkgPath) s of
        (Inr u, s') \<Rightarrow> s'
      | (Inl e, s') \<Rightarrow> emit (Debug ''Failed to install pkg file'') s')"

definition detach_cmd :: "ext \<Rightarrow> string \<Rightarrow> toolrunner" where
  "detach_cmd x volumePath = line (sudo x ''hdiutil'') (''detach '' @ quoted volumePath)"

definition detach :: "ext \<Rightarrow> string \<Rightarrow> state \<Rightarrow> (error + unit) \<times> state" where
  "detach x volumePath s =
     exec x (detach_cmd x volumePath) (emit (ConsoleLog ''DetachDiskImage'' []) s)"

definition getVolumePath :: "ext \<Rightarrow> string list \<Rightarrow> state \<Rightarrow> error + string" where
  "getVolumePath x volumes s =
     (case readdirSync (files s) VOLUMES_FOLDER of
        None \<Rightarrow> Inl (ReaddirFailed VOLUMES_FOLDER)
      | Some after \<Rightarrow>
          (let newVolumes = new_entries volumes after in
           if length newVolumes \<noteq> 1 then Inl UnsupportedDMGStructure
           else Inr (path_join x [VOLUMES_FOLDER, newVolumes ! 0])))"

definition getPackagePath :: "ext \<Rightarrow> string \<Rightarrow> state \<Rightarrow> error + string" where
  "getPackagePath x volumePath s =
     (case readdirSync (files s) volumePath of
        None \<Rightarrow> Inl (ReaddirFailed volumePath)
      | Some entries \<Rightarrow>
          (let packages = filter (\<lambda>file. endsWith file ''.pkg'') entries in
           if length packages = 1 then Inr (path_join x [volumePath, packages ! 0])
           else if length packages = 0 then Inl NoPKGFile
           else Inl SeveralPKGFiles))"

definition installPkg ::
  "ext \<Rightarrow> string \<Rightarrow> string \<Rightarrow> string \<Rightarrow> state \<Rightarrow> (error + string) \<times> state" where
  "installPkg x pkgPath extendedJavaHome versionSpec s =
     (if \<not> existsSync (files s) pkgPath then (Inl PkgPathDoesNotExist, s)
      else
        (let s1 = emit (ConsoleLog ''InstallJDK'' []) s in
         case readdirSync (files s1) JDK_FOLDER of
           None \<Rightarrow> (Inl (ReaddirFailed JDK_FOLDER), s1)
         | Some JDKs \<Rightarrow>
             (let s2 = runPkgInstaller x pkgPath s1 in
              case readdirSync (files s2) JDK_FOLDER of
                None \<Rightarrow> (Inl (ReaddirFailed JDK_FOLDER), s2)
              | Some after \<Rightarrow>
                  (let newJDKs = new_entries JDKs after in
                   if length newJDKs = 0 then
                     (case variables s2 extendedJavaHome of
                        None \<Rightarrow> (Inl (JavaNotPreinstalled versionSpec), s2)
                      | Some preInstalledJavaDirectory \<Rightarrow>
                          (Inr preInstalledJavaDirectory,
                           emit (ConsoleLog ''UsePreinstalledJava'' [preInstalledJavaDirectory])
                             (emit (ConsoleLog ''PreInstalledJavaUpgraded'' []) s2)))
                   else
                     (Inr (path_join x [JDK_FOLDER, newJDKs ! 0, JDK_HOME_FOLDER]),
                      emit (ConsoleLog ''JavaSuccessfullyInstalled'' []) s2)))))"

text \<open>
  The extractor runs on the file system and returns the JDK directory or throws; it is a
  module outside the script.
\<close>

definition runExtractor ::
  "ext \<Rightarrow> string \<Rightarrow> string \<Rightarrow> string \<Rightarrow> state \<Rightarrow> (error + string) \<times> state" where
  "runExtractor x sourceFile fileExtension archiveExtractLocation s =
     (case unzipJavaDownload x sourceFile fileExtension archiveExtractLocation (files s) of
        (r, fs') \<Rightarrow> (r, s\<lparr>files := fs'\<rparr>))"

definition installJDK ::
  "ext \<Rightarrow> string \<Rightarrow> string \<Rightarrow> string \<Rightarrow> string \<Rightarrow> string \<Rightarrow> state
     \<Rightarrow> (error + string) \<times> state" where
  "installJDK x sourceFile fileExtension archiveExtractLocation extendedJavaHome versionSpec s =
     (if fileExtension = ''.dmg'' \<and> platform x = ''darwin'' then
        (case readdirSync (files s) VOLUMES_FOLDER of
           None \<Rightarrow> (Inl (ReaddirFailed VOLUMES_FOLDER), s)
         | Some volumes \<Rightarrow>
             (case attach x sourceFile s of
                (Inl e, s1) \<Rightarrow> (Inl e, s1)
              | (Inr u, s1) \<Rightarrow>
                  (case getVolumePath x volumes s1 of
                     Inl e \<Rightarrow> (Inl e, s1)
                   | Inr volumePath \<Rightarrow>
                       (case getPackagePath x volumePath s1 of
                          Inl e \<Rightarrow> (Inl e, s1)
                        | Inr pkgPath \<Rightarrow>
                            (case installPkg x pkgPath extendedJavaHome versionSpec s1 of
                               (Inl e, s2) \<Rightarrow> (Inl e, s2)
                             | (Inr jdkDirectory, s2) \<Rightarrow>
                                 (case detach x volumePath s2 of
                                    (Inl e, s3) \<Rightarrow> (Inr jdkDirectory, emit (TaskError e) s3)
                                  | (Inr u', s3) \<Rightarrow> (Inr jdkDirectory, s3)))))))
      else if fileExtension = ''.pkg'' \<and> platform x = ''darwin'' then
        installPkg x sourceFile extendedJavaHome versionSpec s
      else
        runExtractor x sourceFile fileExtension archiveExtractLocation s)"

text \<open>\<^verbatim>\<open>fileNameAndPath.split(/[\\\/]/).pop()\<close>: what follows the last slash or backslash.\<close>

definition buildFilePath :: "ext \<Rightarrow> string \<Rightarrow> string \<Rightarrow> string \<Rightarrow> string" where
  "buildFilePath x localPathRoot fileEnding fileNameAndPath =
     (let fileName = rev (takeWhile (\<lambda>c. c \<noteq> CHR ''/'' \<and> c \<noteq> CHR 0x5C) (rev fileNameAndPath))
      in path_join x [localPathRoot, fileName])"

text \<open>The \<^verbatim>\<open>forEach\<close> over the entries of the destination directory.\<close>

fun cleanItems :: "ext \<Rightarrow> string \<Rightarrow> string list \<Rightarrow> fsys \<Rightarrow> (error + unit) \<times> fsys" where
  "cleanItems x extractLocation [] fs = (Inr (), fs)"
| "cleanItems x extractLocation (item # items) fs =
     (case rmRF x (path_join x [extractLocation, item]) fs of
        (Inl e, fs') \<Rightarrow> (Inl e, fs')
      | (Inr u, fs') \<Rightarrow> cleanItems x extractLocation items fs')"

text \<open>
  \<^verbatim>\<open>getJava\<close>, block by block. The variable \<^verbatim>\<open>jdkDirectory\<close> is declared without a
  value, so it is a \<open>string option\<close> here: the tool-cache branch leaves it
  \<^verbatim>\<open>undefined\<close>. \<^verbatim>\<open>path.join\<close> throws a \<^verbatim>\<open>TypeError\<close> on an argument that is not a
  string, and so does a method call on \<^verbatim>\<open>undefined\<close>.
\<close>

text \<open>
  The block that cleans the destination folder. In its guard
  \<^verbatim>\<open>taskLib.stats(extractLocation).isDirectory\<close> is a function object, which is truthy.
\<close>

definition cleanDestination :: "ext \<Rightarrow> string \<Rightarrow> state \<Rightarrow> (error + unit) \<times> state" where
  "cleanDestination x extractLocation s =
     (if boolInputs x ''cleanDestinationDirectory'' \<and> existsSync (files s) extractLocation then
        (let s1 = emit (ConsoleLog ''CleanDestDir'' [extractLocation]) s in
         case readdirSync (files s1) extractLocation of
           None \<Rightarrow> (Inl (ReaddirFailed extractLocation), s1)
         | Some items \<Rightarrow>
             (case cleanItems x extractLocation items (files s1) of
                (r, fs') \<Rightarrow> (r, s1\<lparr>files := fs'\<rparr>)))
      else (Inr (), s))"

text \<open>The branch \<^verbatim>\<open>else if (fromAzure)\<close>.\<close>

definition getJava_fromAzure ::
  "ext \<Rightarrow> string \<Rightarrow> string \<Rightarrow> string \<Rightarrow> state \<Rightarrow> (error + string option) \<times> state" where
  "getJava_fromAzure x extractLocation extendedJavaHome versionSpec s =
     (let s1 = emit (ConsoleLog ''RetrievingJdkFromAzure'' []) s;
          fileNameAndPath = inputs x ''azureCommonVirtualFile'' in
      case getInputRequired x ''azureResourceManagerEndpoint'' of
        Inl e \<Rightarrow> (Inl e, s1)
      | Inr endpoint \<Rightarrow>
     (case getInputRequired x ''azureStorageAccountName'' of
        Inl e \<Rightarrow> (Inl e, s1)
      | Inr account \<Rightarrow>
     (case getInputRequired x ''azureContainerName'' of
        Inl e \<Rightarrow> (Inl e, s1)
      | Inr container \<Rightarrow>
     (case downloadArtifacts x [endpoint, account, container, []] extractLocation
             (''*'' @ js_string fileNameAndPath) (files s1) of
        (Inl e, fs') \<Rightarrow> (Inl e, s1\<lparr>files := fs'\<rparr>)
      | (Inr u, fs') \<Rightarrow>
     (let s2 = emit (Sleep 250) (s1\<lparr>files := fs'\<rparr>) in
      case fileNameAndPath of
        None \<Rightarrow> (Inl TypeError, s2)
      | Some file \<Rightarrow>
     (case getSupportedFileEnding file of
        Inl e \<Rightarrow> (Inl e, s2)
      | Inr compressedFileExtension \<Rightarrow>
     (let extractSource = buildFilePath x extractLocation compressedFileExtension file in
      case installJDK x extractSource compressedFileExtension extractLocation
             extendedJavaHome versionSpec s2 of
        (Inl e, s3) \<Rightarrow> (Inl e, s3)
      | (Inr d, s3) \<Rightarrow> (Inr (Some d), s3))))))))"

text \<open>The last branch: the JDK is a local file.\<close>

definition getJava_fromLocal ::
  "ext \<Rightarrow> string \<Rightarrow> string \<Rightarrow> string \<Rightarrow> state \<Rightarrow> (error + string option) \<times> state" where
  "getJava_fromLocal x extractLocation extendedJavaHome versionSpec s =
     (let s1 = emit (ConsoleLog ''RetrievingJdkFromLocalPath'' []) s in
      case getInputRequired x ''jdkFile'' of
        Inl e \<Rightarrow> (Inl e, s1)
      | Inr jdkFile \<Rightarrow>
     (case getSupportedFileEnding jdkFile of
        Inl e \<Rightarrow> (Inl e, s1)
      | Inr compressedFileExtension \<Rightarrow>
     (case installJDK x jdkFile compressedFileExtension extractLocation
             extendedJavaHome versionSpec s1 of
        (Inl e, s2) \<Rightarrow> (Inl e, s2)
      | (Inr d, s2) \<Rightarrow> (Inr (Some d), s2))))"

text \<open>The five statements after the branches, which publish \<^verbatim>\<open>jdkDirectory\<close>.\<close>

definition publish :: "ext \<Rightarrow> string \<Rightarrow> string option \<Rightarrow> state \<Rightarrow> (error + unit) \<times> state" where
  "publish x extendedJavaHome jdkDirectory s =
     (let s1 = emit (ConsoleLog ''SetJavaHome'' [js_string jdkDirectory]) s;
          s2 = emit (ConsoleLog ''SetExtendedJavaHome'' [extendedJavaHome, js_string jdkDirectory]) s1;
          s3 = setVariable ''JAVA_HOME'' jdkDirectory s2;
          s4 = setVariable extendedJavaHome jdkDirectory s3 in
      case jdkDirectory of
        None \<Rightarrow> (Inl TypeError, s4)
      | Some d \<Rightarrow> (Inr (), emit (PrependPath (path_join x [d, BIN_FOLDER x])) s4))"

text \<open>The chain \<^verbatim>\<open>if (version) ... else if (preInstalled) ... else if (fromAzure) ... else\<close>.\<close>

definition resolve ::
  "ext \<Rightarrow> string \<Rightarrow> bool \<Rightarrow> bool \<Rightarrow> string \<Rightarrow> string \<Rightarrow> string \<Rightarrow> state
     \<Rightarrow> (error + string option) \<times> state" where
  "resolve x version preInstalled fromAzure extractLocation extendedJavaHome versionSpec s =
     (if version \<noteq> [] then
        (Inr None, emit (ConsoleLog ''Info_ResolvedToolFromCache'' [version]) s)
      else if preInstalled then
        (case variables s extendedJavaHome of
           None \<Rightarrow> (Inl (JavaNotPreinstalled versionSpec), s)
         | Some preInstalledJavaDirectory \<Rightarrow>
             (Inr (Some preInstalledJavaDirectory),
              emit (ConsoleLog ''UsePreinstalledJava'' [preInstalledJavaDirectory]) s))
      else if fromAzure then getJava_fromAzure x extractLocation extendedJavaHome versionSpec s
      else getJava_fromLocal x extractLocation extendedJavaHome versionSpec s)"

definition getJava :: "ext \<Rightarrow> string \<Rightarrow> state \<Rightarrow> (error + unit) \<times> state" where
  "getJava x versionSpec s =
     (case getInputRequired x ''jdkSourceOption'' of
        Inl e \<Rightarrow> (Inl e, s)
      | Inr jdkSourceOption \<Rightarrow>
     (let preInstalled = (''PreInstalled'' = jdkSourceOption);
          fromAzure = (''AzureStorage'' = jdkSourceOption) in
      case getInputRequired x ''jdkDestinationDirectory'' of
        Inl e \<Rightarrow> (Inl e, s)
      | Inr extractLocation \<Rightarrow>
     (case getInputRequired x ''jdkArchitectureOption'' of
        Inl e \<Rightarrow> (Inl e, s)
      | Inr arch \<Rightarrow>
     (let extendedJavaHome = ''JAVA_HOME_'' @ versionSpec @ ''_'' @ arch;
          s1 = emit (Debug ''Trying to get tool from local cache first'') s;
          localVersions = findLocalToolVersions x ''Java'' (files s1);
          version = evaluateVersions x localVersions versionSpec in
      case cleanDestination x extractLocation s1 of
        (Inl e, s2) \<Rightarrow> (Inl e, s2)
      | (Inr u, s2) \<Rightarrow>
     (case resolve x version preInstalled fromAzure extractLocation extendedJavaHome
             versionSpec s2 of
        (Inl e, s3) \<Rightarrow> (Inl e, s3)
      | (Inr jdkDirectory, s3) \<Rightarrow> publish x extendedJavaHome jdkDirectory s3)))))"

definition run :: "ext \<Rightarrow> state \<Rightarrow> state" where
  "run x s =
     (case getInputRequired x ''versionSpec'' of
        Inl e \<Rightarrow> emit (SetResult (Failed e)) (emit (TaskError e) s)
      | Inr versionSpec \<Rightarrow>
          (case getJava x versionSpec s of
             (Inl e, s') \<Rightarrow> emit (SetResult (Failed e)) (emit (TaskError e) s')
           | (Inr u, s') \<Rightarrow> emit (SetResult Succeeded) s'))"

subsection \<open>Observing a run\<close>

text \<open>The external programs a run has started, in order.\<close>

fun execs :: "event list \<Rightarrow> toolrunner list" where
  "execs [] = []"
| "execs (Exec c # es) = c # execs es"
| "execs (e # es) = execs es"

subsection \<open>A macOS host\<close>

text \<open>
  Node's \<^verbatim>\<open>path.posix.join\<close>: the non-empty arguments are joined with a slash and the
  result is normalised (empty and \<^verbatim>\<open>.\<close> segments dropped, \<^verbatim>\<open>..\<close> resolved, a trailing
  slash kept).
\<close>

fun split_slash :: "string \<Rightarrow> string list" where
  "split_slash [] = [[]]"
| "split_slash (c # cs) =
     (if c = CHR ''/'' then [] # split_slash cs
      else (case split_slash cs of [] \<Rightarrow> [[c]] | seg # segs \<Rightarrow> (c # seg) # segs))"

fun normalizeString :: "bool \<Rightarrow> string list \<Rightarrow> string list \<Rightarrow> string list" where
  "normalizeString allowAboveRoot res [] = rev res"
| "normalizeString allowAboveRoot res (seg # segs) =
     (if seg = [] \<or> seg = ''.'' then normalizeString allowAboveRoot res segs
      else if seg = ''..'' then
        (if res \<noteq> [] \<and> hd res \<noteq> ''..'' then normalizeString allowAboveRoot (tl res) segs
         else if allowAboveRoot then normalizeString allowAboveRoot (''..'' # res) segs
         else normalizeString allowAboveRoot res segs)
      else normalizeString allowAboveRoot (seg # res) segs)"

fun join_slash :: "string list \<Rightarrow> string" where
  "join_slash [] = []"
| "join_slash [seg] = seg"
| "join_slash (seg # segs) = seg @ ''/'' @ join_slash segs"

definition posix_normalize :: "string \<Rightarrow> string" where
  "posix_normalize path =
     (if path = [] then ''.''
      else
        (let isAbsolute = (hd path = CHR ''/'');
             trailingSeparator = (last path = CHR ''/'');
             p = join_slash (normalizeString (\<not> isAbsolute) [] (split_slash path)) in
         if p = [] then (if isAbsolute then ''/'' else if trailingSeparator then ''./'' else ''.'')
         else (if isAbsolute then ''/'' else []) @ p @ (if trailingSeparator then ''/'' else [])))"

definition posix_join :: "string list \<Rightarrow> string" where
  "posix_join paths =
     (let joined = filter (\<lambda>arg. arg \<noteq> []) paths in
      if joined = [] then ''.'' else posix_normalize (join_slash joined))"

text \<open>A file system given by the listing of its directories and by the paths that exist.\<close>

definition fs_of :: "(string \<times> string list) list \<Rightarrow> string list \<Rightarrow> fsys" where
  "fs_of dirs paths = \<lparr>readdirSync = map_of dirs, existsSync = (\<lambda>p. p \<in> set paths)\<rparr>"

text \<open>
  A macOS agent: tools are found under \<^verbatim>\<open>/usr/bin\<close>, nothing is in the tool cache, the
  extractor, downloader and \<^verbatim>\<open>rmRF\<close> leave the file system alone. Its inputs and the
  behaviour of the external programs are parameters.
\<close>

definition darwin_host ::
  "(string \<Rightarrow> string option) \<Rightarrow> (toolrunner \<Rightarrow> fsys \<Rightarrow> exec_outcome \<times> fsys) \<Rightarrow> ext" where
  "darwin_host ins tools =
     \<lparr>platform = ''darwin'', inputs = ins, boolInputs = (\<lambda>n. False),
      which = (\<lambda>t. ''/usr/bin/'' @ t), path_join = posix_join, exec_tool = tools,
      unzipJavaDownload = (\<lambda>f e d fs. (Inr (posix_join [d, ''jdk'']), fs)),
      downloadArtifacts = (\<lambda>c d p fs. (Inr (), fs)),
      findLocalToolVersions = (\<lambda>t fs. []),
      evaluateVersions = (\<lambda>vs spec. []),
      rmRF = (\<lambda>p fs. (Inr (), fs)),
      BIN_FOLDER = ''bin''\<rparr>"

definition start :: "fsys \<Rightarrow> (string \<Rightarrow> string option) \<Rightarrow> state" where
  "start fs vars = \<lparr>files = fs, variables = vars, trace = []\<rparr>"

text \<open>Changes that an external program makes to the file system.\<close>

definition with_dir :: "string \<Rightarrow> string list \<Rightarrow> fsys \<Rightarrow> fsys" where
  "with_dir d entries fs = fs\<lparr>readdirSync := (readdirSync fs)(d := Some entries)\<rparr>"

definition with_path :: "string \<Rightarrow> fsys \<Rightarrow> fsys" where
  "with_path p fs = fs\<lparr>existsSync := (existsSync fs)(p := True)\<rparr>"

text \<open>
  The tools of a macOS agent: what \<^verbatim>\<open>hdiutil attach\<close> and \<^verbatim>\<open>installer\<close> do to the file
  system, and how \<^verbatim>\<open>installer\<close> and \<^verbatim>\<open>hdiutil detach\<close> end. The program is told by the
  last argument line.
\<close>

definition mac_tools ::
  "(fsys \<Rightarrow> fsys) \<Rightarrow> exec_outcome \<Rightarrow> (fsys \<Rightarrow> fsys) \<Rightarrow> exec_outcome
     \<Rightarrow> toolrunner \<Rightarrow> fsys \<Rightarrow> exec_outcome \<times> fsys" where
  "mac_tools attached installerOutcome installed detachOutcome tr fs =
     (case tr of ToolRunner t as \<Rightarrow>
        if as \<noteq> [] \<and> take 7 (last as) = ''attach '' then (Exit 0, attached fs)
        else if as \<noteq> [] \<and> take 9 (last as) = ''-package '' then (installerOutcome, installed fs)
        else (detachOutcome, fs))"

text \<open>An agent with one JDK installed and a package file in \<^verbatim>\<open>/tmp\<close>.\<close>

definition agent_fs :: fsys where
  "agent_fs = fs_of [(''/Volumes'', [''Macintosh HD'']), (JDK_FOLDER, [''jdk-8.jdk''])]
                    [''/tmp/jdk-8.pkg'', ''/tmp/jdk-11.pkg'', ''/tmp/jdk-11.dmg'']"

text \<open>The variable that an earlier run has set for JDK 8.\<close>

definition agent_vars :: "string \<Rightarrow> string option" where
  "agent_vars = map_of
     [(''JAVA_HOME_8_x64'', ''/Library/Java/JavaVirtualMachines/jdk-8.jdk/Contents/Home'')]"

definition no_inputs :: "string \<Rightarrow> string option" where
  "no_inputs = (\<lambda>n. None)"

text \<open>
  What \<^verbatim>\<open>hdiutil attach\<close> leaves behind: the image is mounted as \<^verbatim>\<open>/Volumes/JDK 11\<close> and
  holds the given entries.
\<close>

definition mounted :: "string list \<Rightarrow> fsys \<Rightarrow> fsys" where
  "mounted entries fs =
     with_dir ''/Volumes'' [''Macintosh HD'', ''JDK 11'']
       (with_dir ''/Volumes/JDK 11'' entries
          (foldr (\<lambda>e. with_path (''/Volumes/JDK 11/'' @ e)) entries fs))"

text \<open>The inputs of a task that installs version 11 for x64 from the given source and file.\<close>

definition task_inputs :: "string \<Rightarrow> string \<Rightarrow> string \<Rightarrow> string option" where
  "task_inputs jdkSourceOption jdkFile = map_of
     [(''versionSpec'', ''11''), (''jdkSourceOption'', jdkSourceOption),
      (''jdkDestinationDirectory'', ''/tmp/out''), (''jdkArchitectureOption'', ''x64''),
      (''jdkFile'', jdkFile)]"

text \<open>The same agent with version 11.0.2 of Java in the tool cache.\<close>

definition cached_host :: "(string \<Rightarrow> string option) \<Rightarrow> ext" where
  "cached_host ins =
     (darwin_host ins (mac_tools id (Exit 0) id (Exit 0)))
       \<lparr>findLocalToolVersions := (\<lambda>t fs. [''11.0.2'']),
        evaluateVersions := (\<lambda>versions spec. case versions of [] \<Rightarrow> [] | v # vs \<Rightarrow> v)\<rparr>"

section \<open>Properties\<close>

subsection \<open>Basic facts\<close>

lemma endsWith_suffix: "endsWith file ending \<longleftrightarrow> suffix ending file"
proof
  assume "endsWith file ending"
  then have "file = take (length file - length ending) file @ ending"
    unfolding endsWith_def by (metis append_take_drop_id)
  then show "suffix ending file" unfolding suffix_def by blast
next
  assume "suffix ending file"
  then obtain p where "file = p @ ending" unfolding suffix_def by blast
  then show "endsWith file ending" unfolding endsWith_def by simp
qed

lemma execs_append: "execs (a @ b) = execs a @ execs b"
  by (induction a rule: execs.induct) simp_all

lemma emit_fields [simp]:
  "files (emit e s) = files s" "variables (emit e s) = variables s"
  "trace (emit e s) = trace s @ [e]"
  by (simp_all add: emit_def)

lemma line_last: "v \<noteq> [] \<Longrightarrow> line tr v = ToolRunner t as \<Longrightarrow> as \<noteq> [] \<and> last as = v"
  by (cases tr) auto

lemma attach_not_installer: "attach_cmd x src \<noteq> installer_cmd x p"
proof
  assume eq: "attach_cmd x src = installer_cmd x p"
  obtain t as where ta: "attach_cmd x src = ToolRunner t as" by (cases "attach_cmd x src") auto
  have "last as = ''attach '' @ quoted src"
    using line_last[of "''attach '' @ quoted src" "sudo x ''hdiutil''" t as] ta
    unfolding attach_cmd_def by simp
  moreover have "last as = ''-package '' @ quoted p @ '' -target /''"
    using line_last[of "''-package '' @ quoted p @ '' -target /''" "sudo x ''installer''" t as] ta eq
    unfolding installer_cmd_def by simp
  ultimately show False by simp
qed

lemma exec_fields:
  "variables (snd (exec x tr s)) = variables s"
  "files (snd (exec x tr s)) = snd (exec_tool x tr (files s))"
  "trace (snd (exec x tr s)) = trace s @ [Exec tr]"
  "fst (exec x tr s) = (if fst (exec_tool x tr (files s)) = Exit 0 then Inr ()
      else Inl (ExecFailed tr (fst (exec_tool x tr (files s)))))"
  by (simp_all add: exec_def split: prod.splits)

lemma runPkgInstaller_fields:
  "variables (runPkgInstaller x p s) = variables s"
  "files (runPkgInstaller x p s) = snd (exec_tool x (installer_cmd x p) (files s))"
  "trace (runPkgInstaller x p s) = trace s @ Exec (installer_cmd x p) #
      (if fst (exec_tool x (installer_cmd x p) (files s)) = Exit 0 then []
       else [Debug ''Failed to install pkg file''])"
  by (auto simp add: runPkgInstaller_def exec_def split: prod.splits sum.splits)

subsection \<open>The classifier\<close>

lemma getSupportedFileEnding_find:
  "getSupportedFileEnding file =
     (case find (\<lambda>e. suffix e file) supportedFileEndings of
        Some e \<Rightarrow> Inr e | None \<Rightarrow> Inl UnsupportedFileExtension)"
proof -
  have P: "(\<lambda>ending. endsWith file ending) = (\<lambda>e. suffix e file)"
    by (simp add: endsWith_suffix fun_eq_iff)
  show ?thesis
  proof (cases "find (\<lambda>e. suffix e file) supportedFileEndings")
    case None
    then show ?thesis by (simp add: getSupportedFileEnding_def P)
  next
    case (Some e)
    then have "e \<in> set supportedFileEndings" by (auto simp: find_Some_iff)
    then have "e \<noteq> []" by (auto simp: supportedFileEndings_def)
    with Some show ?thesis by (simp add: getSupportedFileEnding_def P)
  qed
qed

lemma getSupportedFileEnding_Inr:
  "getSupportedFileEnding file = Inr e \<longleftrightarrow>
     (\<exists>i < length supportedFileEndings. supportedFileEndings ! i = e \<and> suffix e file \<and>
        (\<forall>j < i. \<not> suffix (supportedFileEndings ! j) file))"
proof (cases "find (\<lambda>e. suffix e file) supportedFileEndings")
  case None
  then have "\<forall>i < length supportedFileEndings. \<not> suffix (supportedFileEndings ! i) file"
    by (simp add: find_None_iff)
  with None show ?thesis by (auto simp: getSupportedFileEnding_find)
next
  case (Some a)
  have "find (\<lambda>e. suffix e file) supportedFileEndings = Some e \<longleftrightarrow>
     (\<exists>i < length supportedFileEndings. supportedFileEndings ! i = e \<and> suffix e file \<and>
        (\<forall>j < i. \<not> suffix (supportedFileEndings ! j) file))"
    unfolding find_Some_iff by blast
  with Some show ?thesis by (simp add: getSupportedFileEnding_find)
qed

lemma getSupportedFileEnding_Inl:
  "getSupportedFileEnding file = Inl err \<longleftrightarrow>
     err = UnsupportedFileExtension \<and> (\<forall>e \<in> set supportedFileEndings. \<not> suffix e file)"
proof (cases "find (\<lambda>e. suffix e file) supportedFileEndings")
  case None
  then have "getSupportedFileEnding file = Inl UnsupportedFileExtension"
    by (simp add: getSupportedFileEnding_find)
  moreover from None have "\<forall>e \<in> set supportedFileEndings. \<not> suffix e file"
    by (simp add: find_None_iff)
  ultimately show ?thesis by auto
next
  case (Some a)
  then have "a \<in> set supportedFileEndings \<and> suffix a file" by (auto simp: find_Some_iff)
  with Some show ?thesis by (auto simp: getSupportedFileEnding_find)
qed

subsection \<open>The directory diff\<close>

text \<open>
  C10. The directory diff is the set difference of the entry names: it holds the entries
  of the later snapshot that are not in the earlier one, the diff of a snapshot with
  itself is empty, and reordering the entries of either snapshot leaves the diff the
  same up to the order of its entries.
\<close>

theorem new_entries_set_difference:
  "set (new_entries before after) = set after - set before
   \<and> new_entries S S = []
   \<and> (mset before' = mset before \<and> mset after' = mset after
        \<longrightarrow> mset (new_entries before' after') = mset (new_entries before after))"
proof -
  have "mset (new_entries before' after') = mset (new_entries before after)"
    if b: "mset before' = mset before" and a: "mset after' = mset after"
  proof -
    have "set before' = set before" using b by (metis set_mset_mset)
    then show ?thesis using a by (simp add: new_entries_def mset_filter del: filter_filter)
  qed
  then show ?thesis by (auto simp: new_entries_def)
qed

theorem new_entries_set_difference_witness:
  "mset [''jdk-8.jdk'', ''jdk-7.jdk''] = mset [''jdk-7.jdk'', ''jdk-8.jdk'']
   \<and> mset [''jdk-11.jdk'', ''jdk-8.jdk'', ''jdk-7.jdk''] = mset [''jdk-7.jdk'', ''jdk-8.jdk'', ''jdk-11.jdk'']
   \<and> mset (new_entries [''jdk-8.jdk'', ''jdk-7.jdk''] [''jdk-11.jdk'', ''jdk-8.jdk'', ''jdk-7.jdk''])
       = mset (new_entries [''jdk-7.jdk'', ''jdk-8.jdk''] [''jdk-7.jdk'', ''jdk-8.jdk'', ''jdk-11.jdk''])
   \<and> new_entries [''jdk-7.jdk'', ''jdk-8.jdk''] [''jdk-7.jdk'', ''jdk-8.jdk'', ''jdk-11.jdk''] = [''jdk-11.jdk'']"
proof -
  have b: "mset [''jdk-8.jdk'', ''jdk-7.jdk''] = mset [''jdk-7.jdk'', ''jdk-8.jdk'']"
    by simp
  have a: "mset [''jdk-11.jdk'', ''jdk-8.jdk'', ''jdk-7.jdk'']
             = mset [''jdk-7.jdk'', ''jdk-8.jdk'', ''jdk-11.jdk'']"
    by simp
  have n: "new_entries [''jdk-7.jdk'', ''jdk-8.jdk''] [''jdk-7.jdk'', ''jdk-8.jdk'', ''jdk-11.jdk'']
             = [''jdk-11.jdk'']"
    by (simp add: new_entries_def)
  from new_entries_set_difference
    [of "[''jdk-7.jdk'', ''jdk-8.jdk'']" "[''jdk-7.jdk'', ''jdk-8.jdk'', ''jdk-11.jdk'']" "[]"
        "[''jdk-8.jdk'', ''jdk-7.jdk'']" "[''jdk-11.jdk'', ''jdk-8.jdk'', ''jdk-7.jdk'']"]
  have "mset (new_entries [''jdk-8.jdk'', ''jdk-7.jdk''] [''jdk-11.jdk'', ''jdk-8.jdk'', ''jdk-7.jdk''])
       = mset (new_entries [''jdk-7.jdk'', ''jdk-8.jdk''] [''jdk-7.jdk'', ''jdk-8.jdk'', ''jdk-11.jdk''])"
    using a b by blast
  with a b n show ?thesis by blast
qed

subsection \<open>Installing a package\<close>

lemma runPkgInstaller_emit_files:
  "files (runPkgInstaller x p (emit e s)) = files (runPkgInstaller x p s)"
  by (simp add: runPkgInstaller_fields)

lemma installPkg_result:
  assumes "existsSync (files s) pkgPath"
    and "readdirSync (files s) JDK_FOLDER = Some before"
    and "readdirSync (files (runPkgInstaller x pkgPath s)) JDK_FOLDER = Some after"
  shows "fst (installPkg x pkgPath extendedJavaHome versionSpec s) =
           (if length (new_entries before after) = 0 then
              (case variables s extendedJavaHome of
                 None \<Rightarrow> Inl (JavaNotPreinstalled versionSpec)
               | Some d \<Rightarrow> Inr d)
            else Inr (path_join x [JDK_FOLDER, new_entries before after ! 0, JDK_HOME_FOLDER]))"
  using assms
  by (simp add: installPkg_def Let_def runPkgInstaller_emit_files runPkgInstaller_fields(1)
           split: option.splits)

text \<open>
  C2. When the diff of the JDK folder across the installer run has no new entry, the
  result of \<^verbatim>\<open>installPkg\<close> is decided by the variable named \<^verbatim>\<open>extendedJavaHome\<close>
  alone: its value is the JDK directory when it is set, and the call fails with
  \<^verbatim>\<open>JavaNotPreinstalled\<close> only when it is not set.
\<close>

theorem installPkg_no_new_entry:
  assumes "existsSync (files s) pkgPath"
    and "readdirSync (files s) JDK_FOLDER = Some before"
    and "readdirSync (files (runPkgInstaller x pkgPath s)) JDK_FOLDER = Some after"
    and "new_entries before after = []"
  shows "fst (installPkg x pkgPath extendedJavaHome versionSpec s) =
           (case variables s extendedJavaHome of
              None \<Rightarrow> Inl (JavaNotPreinstalled versionSpec)
            | Some preInstalledJavaDirectory \<Rightarrow> Inr preInstalledJavaDirectory)"
  using installPkg_result[OF assms(1-3)] assms(4) by simp

text \<open>
  C3. When the diff of the JDK folder across the installer run has exactly one new entry
  \<open>X\<close>, \<^verbatim>\<open>installPkg\<close> returns \<^verbatim>\<open>path.join(JDK_FOLDER, X, JDK_HOME_FOLDER)\<close>, that is
  the JDK folder joined with \<open>X\<close> and \<^verbatim>\<open>Contents/Home\<close>.
\<close>

theorem installPkg_one_new_entry:
  assumes "existsSync (files s) pkgPath"
    and "readdirSync (files s) JDK_FOLDER = Some before"
    and "readdirSync (files (runPkgInstaller x pkgPath s)) JDK_FOLDER = Some after"
    and "new_entries before after = [X]"
  shows "fst (installPkg x pkgPath extendedJavaHome versionSpec s) =
           Inr (path_join x [JDK_FOLDER, X, ''Contents/Home''])"
  using installPkg_result[OF assms(1-3)] assms(4) by (simp add: JDK_HOME_FOLDER_def)

lemmas host_defs =
  darwin_host_def mac_tools_def agent_fs_def agent_vars_def no_inputs_def fs_of_def
  with_dir_def with_path_def start_def

lemmas script_defs =
  installPkg_def runPkgInstaller_def exec_def installer_cmd_def attach_cmd_def detach_cmd_def
  sudo_def tool_def quoted_def new_entries_def emit_def
  JDK_FOLDER_def JDK_HOME_FOLDER_def VOLUMES_FOLDER_def
  posix_join_def posix_normalize_def

theorem installPkg_no_new_entry_witness:
  "new_entries [''jdk-8.jdk''] [''jdk-8.jdk''] = []
   \<and> fst (installPkg (darwin_host no_inputs (mac_tools id (Exit 1) id (Exit 0)))
            ''/tmp/jdk-8.pkg'' ''JAVA_HOME_8_x64'' ''8'' (start agent_fs agent_vars))
       = Inr ''/Library/Java/JavaVirtualMachines/jdk-8.jdk/Contents/Home''
   \<and> fst (installPkg (darwin_host no_inputs (mac_tools id (Exit 1) id (Exit 0)))
            ''/tmp/jdk-8.pkg'' ''JAVA_HOME_8_x64'' ''8'' (start agent_fs (\<lambda>n. None)))
       = Inl (JavaNotPreinstalled ''8'')"
proof -
  let ?x = "darwin_host no_inputs (mac_tools id (Exit 1) id (Exit 0))"
  have e: "existsSync (files (start agent_fs vars)) ''/tmp/jdk-8.pkg''" for vars
    by (simp add: host_defs)
  have b: "readdirSync (files (start agent_fs vars)) JDK_FOLDER = Some [''jdk-8.jdk'']" for vars
    by (simp add: host_defs JDK_FOLDER_def)
  have a: "readdirSync (files (runPkgInstaller ?x ''/tmp/jdk-8.pkg'' (start agent_fs vars)))
             JDK_FOLDER = Some [''jdk-8.jdk'']" for vars
    by (simp add: host_defs script_defs)
  have n: "new_entries [''jdk-8.jdk''] [''jdk-8.jdk''] = []"
    by (simp add: new_entries_def)
  show ?thesis
    using installPkg_no_new_entry[OF e[of agent_vars] b[of agent_vars] a[of agent_vars] n,
            of "''JAVA_HOME_8_x64''" "''8''"]
          installPkg_no_new_entry[OF e[of "\<lambda>n. None"] b[of "\<lambda>n. None"] a[of "\<lambda>n. None"] n,
            of "''JAVA_HOME_8_x64''" "''8''"] n
    by (simp add: start_def agent_vars_def)
qed

theorem installPkg_one_new_entry_witness:
  "new_entries [''jdk-8.jdk''] [''jdk-8.jdk'', ''jdk-11.jdk''] = [''jdk-11.jdk'']
   \<and> fst (installPkg
            (darwin_host no_inputs
               (mac_tools id (Exit 0) (with_dir JDK_FOLDER [''jdk-8.jdk'', ''jdk-11.jdk'']) (Exit 0)))
            ''/tmp/jdk-11.pkg'' ''JAVA_HOME_11_x64'' ''11'' (start agent_fs agent_vars))
       = Inr ''/Library/Java/JavaVirtualMachines/jdk-11.jdk/Contents/Home''"
proof -
  let ?x = "darwin_host no_inputs
              (mac_tools id (Exit 0) (with_dir JDK_FOLDER [''jdk-8.jdk'', ''jdk-11.jdk'']) (Exit 0))"
  let ?s = "start agent_fs agent_vars"
  have e: "existsSync (files ?s) ''/tmp/jdk-11.pkg''"
    by (simp add: host_defs)
  have b: "readdirSync (files ?s) JDK_FOLDER = Some [''jdk-8.jdk'']"
    by (simp add: host_defs JDK_FOLDER_def)
  have a: "readdirSync (files (runPkgInstaller ?x ''/tmp/jdk-11.pkg'' ?s)) JDK_FOLDER
             = Some [''jdk-8.jdk'', ''jdk-11.jdk'']"
    by (simp add: host_defs script_defs)
  have n: "new_entries [''jdk-8.jdk''] [''jdk-8.jdk'', ''jdk-11.jdk''] = [''jdk-11.jdk'']"
    by (simp add: new_entries_def)
  have j: "path_join ?x [JDK_FOLDER, ''jdk-11.jdk'', ''Contents/Home'']
             = ''/Library/Java/JavaVirtualMachines/jdk-11.jdk/Contents/Home''"
    by (simp add: darwin_host_def posix_join_def posix_normalize_def JDK_FOLDER_def)
  show ?thesis
    using installPkg_one_new_entry[OF e b a n, of "''JAVA_HOME_11_x64''" "''11''"] n j
    by simp
qed

text \<open>
  C1. Two new entries in the JDK folder do not make \<^verbatim>\<open>installPkg\<close> fail: the branch
  for a non-empty diff takes \<^verbatim>\<open>newJDKs[0]\<close>. Here the installer run leaves
  \<^verbatim>\<open>jdk-11.jdk\<close> and \<^verbatim>\<open>jdk-11.0.2.jdk\<close> behind, and the first is returned as the JDK
  home.
\<close>

theorem installPkg_two_new_entries:
  "new_entries [''jdk-8.jdk''] [''jdk-8.jdk'', ''jdk-11.jdk'', ''jdk-11.0.2.jdk'']
     = [''jdk-11.jdk'', ''jdk-11.0.2.jdk'']
   \<and> fst (installPkg
            (darwin_host no_inputs
               (mac_tools id (Exit 0)
                  (with_dir JDK_FOLDER [''jdk-8.jdk'', ''jdk-11.jdk'', ''jdk-11.0.2.jdk'']) (Exit 0)))
            ''/tmp/jdk-11.pkg'' ''JAVA_HOME_11_x64'' ''11'' (start agent_fs agent_vars))
       = Inr ''/Library/Java/JavaVirtualMachines/jdk-11.jdk/Contents/Home''"
  by (simp add: host_defs script_defs)

text \<open>
  C6, as stated, fails. The installer cannot be started here (\<open>SpawnFailed\<close>), the JDK
  folder is unchanged, the variable of an earlier run is set: \<^verbatim>\<open>installPkg\<close> returns
  that variable's value and does not fail.
\<close>

theorem installer_spawn_failure_not_fatal:
  "fst (exec_tool (darwin_host no_inputs (mac_tools id SpawnFailed id (Exit 0)))
          (installer_cmd (darwin_host no_inputs (mac_tools id SpawnFailed id (Exit 0)))
             ''/tmp/jdk-8.pkg'')
          (files (start agent_fs agent_vars))) = SpawnFailed
   \<and> fst (installPkg (darwin_host no_inputs (mac_tools id SpawnFailed id (Exit 0)))
            ''/tmp/jdk-8.pkg'' ''JAVA_HOME_8_x64'' ''8'' (start agent_fs agent_vars))
       = Inr ''/Library/Java/JavaVirtualMachines/jdk-8.jdk/Contents/Home''"
  by (simp add: host_defs script_defs)

text \<open>
  C6, amended. Every failure of the installer invocation, whether the program cannot be
  started or it exits with a code other than 0, is caught in \<^verbatim>\<open>runPkgInstaller\<close>, logged
  with \<^verbatim>\<open>taskLib.debug\<close>, and is not fatal: \<^verbatim>\<open>installPkg\<close> goes on to the diff of the
  JDK folder, and that diff decides the result (the registered variable when there is no
  new entry, the new entry when there is exactly one).
\<close>

theorem installer_failure_not_fatal:
  assumes "existsSync (files s) pkgPath"
    and "readdirSync (files s) JDK_FOLDER = Some before"
    and "exec_tool x (installer_cmd x pkgPath) (files s) = (outcome, fs')"
    and "outcome \<noteq> Exit 0"
    and "readdirSync fs' JDK_FOLDER = Some after"
  shows "trace (runPkgInstaller x pkgPath s) =
           trace s @ [Exec (installer_cmd x pkgPath), Debug ''Failed to install pkg file'']
         \<and> files (runPkgInstaller x pkgPath s) = fs'
         \<and> (new_entries before after = [] \<longrightarrow>
               fst (installPkg x pkgPath extendedJavaHome versionSpec s) =
                 (case variables s extendedJavaHome of
                    None \<Rightarrow> Inl (JavaNotPreinstalled versionSpec)
                  | Some d \<Rightarrow> Inr d))
         \<and> (new_entries before after = [X] \<longrightarrow>
               fst (installPkg x pkgPath extendedJavaHome versionSpec s) =
                 Inr (path_join x [JDK_FOLDER, X, JDK_HOME_FOLDER]))"
proof -
  have f: "files (runPkgInstaller x pkgPath s) = fs'"
    using assms(3) by (simp add: runPkgInstaller_fields)
  have t: "trace (runPkgInstaller x pkgPath s) =
           trace s @ [Exec (installer_cmd x pkgPath), Debug ''Failed to install pkg file'']"
    using assms(3,4) by (simp add: runPkgInstaller_fields)
  have a: "readdirSync (files (runPkgInstaller x pkgPath s)) JDK_FOLDER = Some after"
    using f assms(5) by simp
  show ?thesis
    using installPkg_result[OF assms(1,2) a, of extendedJavaHome versionSpec] f t
    by simp
qed

theorem installer_failure_not_fatal_witness:
  "fst (installPkg
          (darwin_host no_inputs
             (mac_tools id (Exit 1) (with_dir JDK_FOLDER [''jdk-8.jdk'', ''jdk-11.jdk'']) (Exit 0)))
          ''/tmp/jdk-11.pkg'' ''JAVA_HOME_11_x64'' ''11'' (start agent_fs agent_vars))
     = Inr ''/Library/Java/JavaVirtualMachines/jdk-11.jdk/Contents/Home''
   \<and> fst (installPkg (darwin_host no_inputs (mac_tools id SpawnFailed id (Exit 0)))
            ''/tmp/jdk-8.pkg'' ''JAVA_HOME_8_x64'' ''8'' (start agent_fs agent_vars))
       = Inr ''/Library/Java/JavaVirtualMachines/jdk-8.jdk/Contents/Home''
   \<and> trace (runPkgInstaller (darwin_host no_inputs (mac_tools id SpawnFailed id (Exit 0)))
               ''/tmp/jdk-8.pkg'' (start agent_fs agent_vars))
       = [Exec (ToolRunner ''sudo''
                  [''/usr/bin/installer'', ''-package '' @ quoted ''/tmp/jdk-8.pkg'' @ '' -target /'']),
          Debug ''Failed to install pkg file'']"
proof -
  let ?x1 = "darwin_host no_inputs
               (mac_tools id (Exit 1) (with_dir JDK_FOLDER [''jdk-8.jdk'', ''jdk-11.jdk'']) (Exit 0))"
  let ?x2 = "darwin_host no_inputs (mac_tools id SpawnFailed id (Exit 0))"
  let ?s = "start agent_fs agent_vars"
  have e1: "existsSync (files ?s) ''/tmp/jdk-11.pkg''" and e2: "existsSync (files ?s) ''/tmp/jdk-8.pkg''"
    by (simp_all add: host_defs)
  have b: "readdirSync (files ?s) JDK_FOLDER = Some [''jdk-8.jdk'']"
    by (simp add: host_defs JDK_FOLDER_def)
  have t1: "exec_tool ?x1 (installer_cmd ?x1 ''/tmp/jdk-11.pkg'') (files ?s) =
              (Exit 1, with_dir JDK_FOLDER [''jdk-8.jdk'', ''jdk-11.jdk''] agent_fs)"
    by (simp add: darwin_host_def mac_tools_def start_def script_defs)
  have t2: "exec_tool ?x2 (installer_cmd ?x2 ''/tmp/jdk-8.pkg'') (files ?s) = (SpawnFailed, agent_fs)"
    by (simp add: darwin_host_def mac_tools_def start_def script_defs)
  have o1: "Exit 1 \<noteq> Exit 0" and o2: "SpawnFailed \<noteq> Exit 0"
    by simp_all
  have a1: "readdirSync (with_dir JDK_FOLDER [''jdk-8.jdk'', ''jdk-11.jdk''] agent_fs) JDK_FOLDER
              = Some [''jdk-8.jdk'', ''jdk-11.jdk'']"
    by (simp add: with_dir_def)
  have a2: "readdirSync agent_fs JDK_FOLDER = Some [''jdk-8.jdk'']"
    by (simp add: host_defs JDK_FOLDER_def)
  have n1: "new_entries [''jdk-8.jdk''] [''jdk-8.jdk'', ''jdk-11.jdk''] = [''jdk-11.jdk'']"
    and n2: "new_entries [''jdk-8.jdk''] [''jdk-8.jdk''] = []"
    by (simp_all add: new_entries_def)
  have j: "path_join ?x1 [JDK_FOLDER, ''jdk-11.jdk'', JDK_HOME_FOLDER]
             = ''/Library/Java/JavaVirtualMachines/jdk-11.jdk/Contents/Home''"
    by (simp add: darwin_host_def posix_join_def posix_normalize_def JDK_FOLDER_def
          JDK_HOME_FOLDER_def)
  have c: "installer_cmd ?x2 ''/tmp/jdk-8.pkg'' =
             ToolRunner ''sudo''
               [''/usr/bin/installer'', ''-package '' @ quoted ''/tmp/jdk-8.pkg'' @ '' -target /'']"
    by (simp add: darwin_host_def installer_cmd_def sudo_def tool_def quoted_def)
  show ?thesis
    using installer_failure_not_fatal[OF e1 b t1 o1 a1, of "''JAVA_HOME_11_x64''" "''11''" "''jdk-11.jdk''"]
          installer_failure_not_fatal[OF e2 b t2 o2 a2, of "''JAVA_HOME_8_x64''" "''8''" "''jdk-8.jdk''"]
          n1 n2 j c
    by (simp add: start_def agent_vars_def)
qed

subsection \<open>Installing from a disk image\<close>

lemma attach_fields:
  "files (snd (attach x src s)) = snd (exec_tool x (attach_cmd x src) (files s))"
  "variables (snd (attach x src s)) = variables s"
  "trace (snd (attach x src s)) = trace s @ [ConsoleLog ''AttachDiskImage'' [], Exec (attach_cmd x src)]"
  by (simp_all add: attach_def exec_fields)

lemma attach_execs:
  "attach x src s = (r, s1) \<Longrightarrow> execs (trace s1) = execs (trace s) @ [attach_cmd x src]"
  using attach_fields(3)[of x src s] by (simp add: execs_append)

lemma installJDK_dmg:
  assumes "platform x = ''darwin''"
    and "readdirSync (files s) VOLUMES_FOLDER = Some volumes"
    and "attach x sourceFile s = (Inr (), s1)"
  shows "installJDK x sourceFile ''.dmg'' loc ejh vs s =
           (case getVolumePath x volumes s1 of
              Inl e \<Rightarrow> (Inl e, s1)
            | Inr volumePath \<Rightarrow>
                (case getPackagePath x volumePath s1 of
                   Inl e \<Rightarrow> (Inl e, s1)
                 | Inr pkgPath \<Rightarrow>
                     (case installPkg x pkgPath ejh vs s1 of
                        (Inl e, s2) \<Rightarrow> (Inl e, s2)
                      | (Inr jdkDirectory, s2) \<Rightarrow>
                          (case detach x volumePath s2 of
                             (Inl e, s3) \<Rightarrow> (Inr jdkDirectory, emit (TaskError e) s3)
                           | (Inr u, s3) \<Rightarrow> (Inr jdkDirectory, s3)))))"
  using assms by (simp add: installJDK_def)

text \<open>
  C5. On macOS, for a \<^verbatim>\<open>.dmg\<close> file whose attach step went through: when the diff of
  \<^verbatim>\<open>/Volumes\<close> across the attach has no new entry, or two or more, \<^verbatim>\<open>getVolumePath\<close>
  throws \<^verbatim>\<open>UnsupportedDMGStructure\<close>, \<^verbatim>\<open>installJDK\<close> fails with that error, and the
  only program the run has started is \<^verbatim>\<open>hdiutil attach\<close>, which is not an installer
  invocation.
\<close>

theorem installJDK_unsupported_dmg_structure:
  assumes "platform x = ''darwin''"
    and "readdirSync (files s) VOLUMES_FOLDER = Some volumes"
    and "attach x sourceFile s = (Inr (), s1)"
    and "readdirSync (files s1) VOLUMES_FOLDER = Some after"
    and "new_entries volumes after = [] \<or> 2 \<le> length (new_entries volumes after)"
  shows "getVolumePath x volumes s1 = Inl UnsupportedDMGStructure
         \<and> installJDK x sourceFile ''.dmg'' archiveExtractLocation extendedJavaHome versionSpec s
             = (Inl UnsupportedDMGStructure, s1)
         \<and> execs (trace s1) = execs (trace s) @ [attach_cmd x sourceFile]
         \<and> (\<forall>pkgPath. attach_cmd x sourceFile \<noteq> installer_cmd x pkgPath)"
proof -
  have len: "length (new_entries volumes after) \<noteq> 1"
    using assms(5) by auto
  have g: "getVolumePath x volumes s1 = Inl UnsupportedDMGStructure"
    using assms(4) len by (simp add: getVolumePath_def)
  show ?thesis
    using g installJDK_dmg[OF assms(1-3)] attach_execs[OF assms(3)] attach_not_installer
    by simp
qed

text \<open>
  C8. \<^verbatim>\<open>getPackagePath\<close> returns the path of the entry that ends in \<^verbatim>\<open>.pkg\<close> when the
  volume has exactly one, throws \<^verbatim>\<open>NoPKGFile\<close> when it has none and
  \<^verbatim>\<open>SeveralPKGFiles\<close> when it has more than one. When it throws, \<^verbatim>\<open>installJDK\<close> fails
  with the same error, and the only program the run has started is
  \<^verbatim>\<open>hdiutil attach\<close>, which is not an installer invocation.
\<close>

theorem getPackagePath_exactly_one:
  "(readdirSync (files s') volumePath = Some entries \<longrightarrow>
      getPackagePath x volumePath s' =
        (case filter (\<lambda>f. suffix ''.pkg'' f) entries of
           [] \<Rightarrow> Inl NoPKGFile
         | [p] \<Rightarrow> Inr (path_join x [volumePath, p])
         | p # q # ps \<Rightarrow> Inl SeveralPKGFiles))
   \<and> (platform x = ''darwin'' \<and> readdirSync (files s) VOLUMES_FOLDER = Some volumes
        \<and> attach x sourceFile s = (Inr (), s')
        \<and> getVolumePath x volumes s' = Inr volumePath
        \<and> getPackagePath x volumePath s' = Inl e \<longrightarrow>
      installJDK x sourceFile ''.dmg'' archiveExtractLocation extendedJavaHome versionSpec s
        = (Inl e, s')
      \<and> execs (trace s') = execs (trace s) @ [attach_cmd x sourceFile]
      \<and> (\<forall>pkgPath. attach_cmd x sourceFile \<noteq> installer_cmd x pkgPath))"
proof -
  have P: "(\<lambda>file. endsWith file ''.pkg'') = (\<lambda>f. suffix ''.pkg'' f)"
    by (simp add: endsWith_suffix fun_eq_iff)
  have one: "getPackagePath x volumePath s' =
        (case filter (\<lambda>f. suffix ''.pkg'' f) entries of
           [] \<Rightarrow> Inl NoPKGFile
         | [p] \<Rightarrow> Inr (path_join x [volumePath, p])
         | p # q # ps \<Rightarrow> Inl SeveralPKGFiles)"
    if "readdirSync (files s') volumePath = Some entries"
    using that by (simp add: getPackagePath_def P split: list.splits)
  have two: "installJDK x sourceFile ''.dmg'' archiveExtractLocation extendedJavaHome versionSpec s
        = (Inl e, s')
      \<and> execs (trace s') = execs (trace s) @ [attach_cmd x sourceFile]
      \<and> (\<forall>pkgPath. attach_cmd x sourceFile \<noteq> installer_cmd x pkgPath)"
    if "platform x = ''darwin''" "readdirSync (files s) VOLUMES_FOLDER = Some volumes"
       "attach x sourceFile s = (Inr (), s')" "getVolumePath x volumes s' = Inr volumePath"
       "getPackagePath x volumePath s' = Inl e"
    using installJDK_dmg[OF that(1-3)] that(4,5) attach_execs[OF that(3)] attach_not_installer
    by simp
  from one two show ?thesis by blast
qed

text \<open>
  C9. On macOS, for a \<^verbatim>\<open>.dmg\<close> file: once \<^verbatim>\<open>installPkg\<close> has returned a JDK
  directory, a failure of \<^verbatim>\<open>detach\<close> is written with \<^verbatim>\<open>taskLib.error\<close> and nothing
  else changes: \<^verbatim>\<open>installJDK\<close> returns that JDK directory.
\<close>

theorem installJDK_detach_failure:
  assumes "platform x = ''darwin''"
    and "readdirSync (files s) VOLUMES_FOLDER = Some volumes"
    and "attach x sourceFile s = (Inr (), s1)"
    and "getVolumePath x volumes s1 = Inr volumePath"
    and "getPackagePath x volumePath s1 = Inr pkgPath"
    and "installPkg x pkgPath extendedJavaHome versionSpec s1 = (Inr jdkDirectory, s2)"
    and "detach x volumePath s2 = (Inl e, s3)"
  shows "installJDK x sourceFile ''.dmg'' archiveExtractLocation extendedJavaHome versionSpec s
           = (Inr jdkDirectory, emit (TaskError e) s3)
         \<and> trace (emit (TaskError e) s3) =
             trace s2 @ [ConsoleLog ''DetachDiskImage'' [], Exec (detach_cmd x volumePath), TaskError e]"
proof -
  have "trace s3 = trace s2 @ [ConsoleLog ''DetachDiskImage'' [], Exec (detach_cmd x volumePath)]"
    using assms(7) exec_fields(3)[of x "detach_cmd x volumePath" "emit (ConsoleLog ''DetachDiskImage'' []) s2"]
    by (simp add: detach_def)
  then show ?thesis
    using installJDK_dmg[OF assms(1-3)] assms(4-7) by simp
qed

theorem installJDK_unsupported_dmg_structure_witness:
  "fst (installJDK (darwin_host no_inputs (mac_tools id (Exit 0) id (Exit 0)))
          ''/tmp/jdk-11.dmg'' ''.dmg'' ''/tmp/out'' ''JAVA_HOME_11_x64'' ''11''
          (start agent_fs agent_vars)) = Inl UnsupportedDMGStructure
   \<and> execs (trace (snd (installJDK (darwin_host no_inputs (mac_tools id (Exit 0) id (Exit 0)))
          ''/tmp/jdk-11.dmg'' ''.dmg'' ''/tmp/out'' ''JAVA_HOME_11_x64'' ''11''
          (start agent_fs agent_vars))))
       = [ToolRunner ''sudo'' [''/usr/bin/hdiutil'', ''attach '' @ quoted ''/tmp/jdk-11.dmg'']]
   \<and> fst (installJDK
          (darwin_host no_inputs
             (mac_tools (with_dir ''/Volumes'' [''Macintosh HD'', ''JDK 11'', ''JDK 11 1''])
                (Exit 0) id (Exit 0)))
          ''/tmp/jdk-11.dmg'' ''.dmg'' ''/tmp/out'' ''JAVA_HOME_11_x64'' ''11''
          (start agent_fs agent_vars)) = Inl UnsupportedDMGStructure"
proof -
  let ?xa = "darwin_host no_inputs (mac_tools id (Exit 0) id (Exit 0))"
  let ?xb = "darwin_host no_inputs
               (mac_tools (with_dir ''/Volumes'' [''Macintosh HD'', ''JDK 11'', ''JDK 11 1''])
                  (Exit 0) id (Exit 0))"
  let ?s = "start agent_fs agent_vars"
  have p0: "platform ?xa = ''darwin''" and p2: "platform ?xb = ''darwin''"
    by (simp_all add: darwin_host_def)
  have v: "readdirSync (files ?s) VOLUMES_FOLDER = Some [''Macintosh HD'']"
    by (simp add: host_defs VOLUMES_FOLDER_def)
  have a0: "attach ?xa ''/tmp/jdk-11.dmg'' ?s = (Inr (), snd (attach ?xa ''/tmp/jdk-11.dmg'' ?s))"
    by (simp add: prod_eq_iff attach_def exec_fields(4) host_defs script_defs)
  have a2: "attach ?xb ''/tmp/jdk-11.dmg'' ?s = (Inr (), snd (attach ?xb ''/tmp/jdk-11.dmg'' ?s))"
    by (simp add: prod_eq_iff attach_def exec_fields(4) host_defs script_defs)
  have r0: "readdirSync (files (snd (attach ?xa ''/tmp/jdk-11.dmg'' ?s))) VOLUMES_FOLDER
              = Some [''Macintosh HD'']"
    by (simp add: attach_fields host_defs script_defs)
  have r2: "readdirSync (files (snd (attach ?xb ''/tmp/jdk-11.dmg'' ?s))) VOLUMES_FOLDER
              = Some [''Macintosh HD'', ''JDK 11'', ''JDK 11 1'']"
    by (simp add: attach_fields host_defs script_defs)
  have n0: "new_entries [''Macintosh HD''] [''Macintosh HD''] = []
              \<or> 2 \<le> length (new_entries [''Macintosh HD''] [''Macintosh HD''])"
    by (simp add: new_entries_def)
  have n2: "new_entries [''Macintosh HD''] [''Macintosh HD'', ''JDK 11'', ''JDK 11 1''] = []
              \<or> 2 \<le> length (new_entries [''Macintosh HD''] [''Macintosh HD'', ''JDK 11'', ''JDK 11 1''])"
    by (simp add: new_entries_def)
  have c: "attach_cmd ?xa ''/tmp/jdk-11.dmg'' =
             ToolRunner ''sudo'' [''/usr/bin/hdiutil'', ''attach '' @ quoted ''/tmp/jdk-11.dmg'']"
    by (simp add: darwin_host_def attach_cmd_def sudo_def tool_def quoted_def)
  have t: "execs (trace ?s) = []"
    by (simp add: start_def)
  show ?thesis
    using installJDK_unsupported_dmg_structure[OF p0 v a0 r0 n0,
            of "''/tmp/out''" "''JAVA_HOME_11_x64''" "''11''"]
          installJDK_unsupported_dmg_structure[OF p2 v a2 r2 n2,
            of "''/tmp/out''" "''JAVA_HOME_11_x64''" "''11''"] c t
    by simp
qed

theorem getPackagePath_exactly_one_witness:
  "getPackagePath (darwin_host no_inputs (mac_tools (mounted [''README.txt'', ''jdk-11.pkg'']) (Exit 0) id (Exit 0)))
      ''/Volumes/JDK 11''
      (start (mounted [''README.txt'', ''jdk-11.pkg''] agent_fs) agent_vars)
     = Inr ''/Volumes/JDK 11/jdk-11.pkg''
   \<and> installJDK
        (darwin_host no_inputs
           (mac_tools (mounted [''jdk-11.pkg'', ''jdk-11-docs.pkg'']) (Exit 0) id (Exit 0)))
        ''/tmp/jdk-11.dmg'' ''.dmg'' ''/tmp/out'' ''JAVA_HOME_11_x64'' ''11''
        (start agent_fs agent_vars)
     = (Inl SeveralPKGFiles,
        snd (attach
          (darwin_host no_inputs
             (mac_tools (mounted [''jdk-11.pkg'', ''jdk-11-docs.pkg'']) (Exit 0) id (Exit 0)))
          ''/tmp/jdk-11.dmg'' (start agent_fs agent_vars)))
   \<and> execs (trace (snd (attach
          (darwin_host no_inputs
             (mac_tools (mounted [''jdk-11.pkg'', ''jdk-11-docs.pkg'']) (Exit 0) id (Exit 0)))
          ''/tmp/jdk-11.dmg'' (start agent_fs agent_vars))))
     = [ToolRunner ''sudo'' [''/usr/bin/hdiutil'', ''attach '' @ quoted ''/tmp/jdk-11.dmg'']]
   \<and> fst (installJDK
        (darwin_host no_inputs (mac_tools (mounted [''README.txt'']) (Exit 0) id (Exit 0)))
        ''/tmp/jdk-11.dmg'' ''.dmg'' ''/tmp/out'' ''JAVA_HOME_11_x64'' ''11''
        (start agent_fs agent_vars))
     = Inl NoPKGFile"
proof -
  let ?xa = "darwin_host no_inputs (mac_tools (mounted [''README.txt'', ''jdk-11.pkg'']) (Exit 0) id (Exit 0))"
  let ?xb = "darwin_host no_inputs (mac_tools (mounted [''jdk-11.pkg'', ''jdk-11-docs.pkg'']) (Exit 0) id (Exit 0))"
  let ?xc = "darwin_host no_inputs (mac_tools (mounted [''README.txt'']) (Exit 0) id (Exit 0))"
  let ?s = "start agent_fs agent_vars"
  let ?sa = "start (mounted [''README.txt'', ''jdk-11.pkg''] agent_fs) agent_vars"
  let ?sb = "snd (attach ?xb ''/tmp/jdk-11.dmg'' ?s)"
  let ?sc = "snd (attach ?xc ''/tmp/jdk-11.dmg'' ?s)"
  have d1: "readdirSync (files ?sa) ''/Volumes/JDK 11'' = Some [''README.txt'', ''jdk-11.pkg'']"
    by (simp add: host_defs mounted_def)
  have f1: "filter (\<lambda>f. suffix ''.pkg'' f) [''README.txt'', ''jdk-11.pkg''] = [''jdk-11.pkg'']"
    by (simp add: endsWith_suffix[symmetric] endsWith_def)
  have j1: "path_join ?xa [''/Volumes/JDK 11'', ''jdk-11.pkg''] = ''/Volumes/JDK 11/jdk-11.pkg''"
    by (simp add: darwin_host_def posix_join_def posix_normalize_def)
  have p2: "platform ?xb = ''darwin''" and p0: "platform ?xc = ''darwin''"
    by (simp_all add: darwin_host_def)
  have v: "readdirSync (files ?s) VOLUMES_FOLDER = Some [''Macintosh HD'']"
    by (simp add: host_defs VOLUMES_FOLDER_def)
  have a2: "attach ?xb ''/tmp/jdk-11.dmg'' ?s = (Inr (), ?sb)"
    by (simp add: prod_eq_iff attach_def exec_fields(4) host_defs script_defs)
  have a0: "attach ?xc ''/tmp/jdk-11.dmg'' ?s = (Inr (), ?sc)"
    by (simp add: prod_eq_iff attach_def exec_fields(4) host_defs script_defs)
  have fs2: "files ?sb = mounted [''jdk-11.pkg'', ''jdk-11-docs.pkg''] agent_fs"
    by (simp add: attach_fields darwin_host_def mac_tools_def start_def attach_cmd_def sudo_def
          tool_def quoted_def)
  have fs0: "files ?sc = mounted [''README.txt''] agent_fs"
    by (simp add: attach_fields darwin_host_def mac_tools_def start_def attach_cmd_def sudo_def
          tool_def quoted_def)
  have g2: "getVolumePath ?xb [''Macintosh HD''] ?sb = Inr ''/Volumes/JDK 11''"
    unfolding getVolumePath_def fs2
    by (simp add: host_defs mounted_def script_defs)
  have g0: "getVolumePath ?xc [''Macintosh HD''] ?sc = Inr ''/Volumes/JDK 11''"
    unfolding getVolumePath_def fs0
    by (simp add: host_defs mounted_def script_defs)
  have k2: "getPackagePath ?xb ''/Volumes/JDK 11'' ?sb = Inl SeveralPKGFiles"
    unfolding getPackagePath_def fs2
    by (simp add: endsWith_def host_defs mounted_def script_defs)
  have k0: "getPackagePath ?xc ''/Volumes/JDK 11'' ?sc = Inl NoPKGFile"
    unfolding getPackagePath_def fs0
    by (simp add: endsWith_def host_defs mounted_def script_defs)
  have c: "attach_cmd ?xb ''/tmp/jdk-11.dmg'' =
             ToolRunner ''sudo'' [''/usr/bin/hdiutil'', ''attach '' @ quoted ''/tmp/jdk-11.dmg'']"
    by (simp add: darwin_host_def attach_cmd_def sudo_def tool_def quoted_def)
  have t: "execs (trace ?s) = []"
    by (simp add: start_def)
  have one: "getPackagePath ?xa ''/Volumes/JDK 11'' ?sa = Inr ''/Volumes/JDK 11/jdk-11.pkg''"
    using getPackagePath_exactly_one
            [where s' = ?sa and volumePath = "''/Volumes/JDK 11''"
               and entries = "[''README.txt'', ''jdk-11.pkg'']" and x = ?xa]
          d1 f1 j1
    by simp
  have two: "installJDK ?xb ''/tmp/jdk-11.dmg'' ''.dmg'' ''/tmp/out'' ''JAVA_HOME_11_x64'' ''11'' ?s
               = (Inl SeveralPKGFiles, ?sb)
             \<and> execs (trace ?sb) = execs (trace ?s) @ [attach_cmd ?xb ''/tmp/jdk-11.dmg'']"
    using getPackagePath_exactly_one
            [where s' = ?sb and volumePath = "''/Volumes/JDK 11''" and x = ?xb and s = ?s
               and volumes = "[''Macintosh HD'']" and sourceFile = "''/tmp/jdk-11.dmg''"
               and e = SeveralPKGFiles and archiveExtractLocation = "''/tmp/out''"
               and extendedJavaHome = "''JAVA_HOME_11_x64''" and versionSpec = "''11''"]
          p2 v a2 g2 k2
    by blast
  have none: "installJDK ?xc ''/tmp/jdk-11.dmg'' ''.dmg'' ''/tmp/out'' ''JAVA_HOME_11_x64'' ''11'' ?s
               = (Inl NoPKGFile, ?sc)"
    using getPackagePath_exactly_one
            [where s' = ?sc and volumePath = "''/Volumes/JDK 11''" and x = ?xc and s = ?s
               and volumes = "[''Macintosh HD'']" and sourceFile = "''/tmp/jdk-11.dmg''"
               and e = NoPKGFile and archiveExtractLocation = "''/tmp/out''"
               and extendedJavaHome = "''JAVA_HOME_11_x64''" and versionSpec = "''11''"]
          p0 v a0 g0 k0
    by blast
  from one two none c t show ?thesis
    by simp
qed

theorem installJDK_detach_failure_witness:
  "installJDK
     (darwin_host no_inputs
        (mac_tools (mounted [''jdk-11.pkg'']) (Exit 0)
           (with_dir JDK_FOLDER [''jdk-8.jdk'', ''jdk-11.jdk'']) (Exit 1)))
     ''/tmp/jdk-11.dmg'' ''.dmg'' ''/tmp/out'' ''JAVA_HOME_11_x64'' ''11''
     (start agent_fs agent_vars)
   = (Inr ''/Library/Java/JavaVirtualMachines/jdk-11.jdk/Contents/Home'',
      emit (TaskError (ExecFailed
              (ToolRunner ''sudo'' [''/usr/bin/hdiutil'', ''detach '' @ quoted ''/Volumes/JDK 11''])
              (Exit 1)))
        (snd (detach
          (darwin_host no_inputs
             (mac_tools (mounted [''jdk-11.pkg'']) (Exit 0)
                (with_dir JDK_FOLDER [''jdk-8.jdk'', ''jdk-11.jdk'']) (Exit 1)))
          ''/Volumes/JDK 11''
          (snd (installPkg
            (darwin_host no_inputs
               (mac_tools (mounted [''jdk-11.pkg'']) (Exit 0)
                  (with_dir JDK_FOLDER [''jdk-8.jdk'', ''jdk-11.jdk'']) (Exit 1)))
            ''/Volumes/JDK 11/jdk-11.pkg'' ''JAVA_HOME_11_x64'' ''11''
            (snd (attach
              (darwin_host no_inputs
                 (mac_tools (mounted [''jdk-11.pkg'']) (Exit 0)
                    (with_dir JDK_FOLDER [''jdk-8.jdk'', ''jdk-11.jdk'']) (Exit 1)))
              ''/tmp/jdk-11.dmg'' (start agent_fs agent_vars))))))))"
proof -
  let ?x = "darwin_host no_inputs
              (mac_tools (mounted [''jdk-11.pkg'']) (Exit 0)
                 (with_dir JDK_FOLDER [''jdk-8.jdk'', ''jdk-11.jdk'']) (Exit 1))"
  let ?s = "start agent_fs agent_vars"
  let ?sa = "snd (attach ?x ''/tmp/jdk-11.dmg'' ?s)"
  let ?sb = "snd (installPkg ?x ''/Volumes/JDK 11/jdk-11.pkg'' ''JAVA_HOME_11_x64'' ''11'' ?sa)"
  let ?sd = "snd (detach ?x ''/Volumes/JDK 11'' ?sb)"
  let ?d = "ToolRunner ''sudo'' [''/usr/bin/hdiutil'', ''detach '' @ quoted ''/Volumes/JDK 11'']"
  have p: "platform ?x = ''darwin''"
    by (simp add: darwin_host_def)
  have v: "readdirSync (files ?s) VOLUMES_FOLDER = Some [''Macintosh HD'']"
    by (simp add: host_defs VOLUMES_FOLDER_def)
  have a: "attach ?x ''/tmp/jdk-11.dmg'' ?s = (Inr (), ?sa)"
    by (simp add: prod_eq_iff attach_def exec_fields(4) host_defs script_defs)
  have fs1: "files ?sa = mounted [''jdk-11.pkg''] agent_fs"
    by (simp add: attach_fields darwin_host_def mac_tools_def start_def attach_cmd_def sudo_def
          tool_def quoted_def)
  have g: "getVolumePath ?x [''Macintosh HD''] ?sa = Inr ''/Volumes/JDK 11''"
    unfolding getVolumePath_def fs1
    by (simp add: host_defs mounted_def script_defs)
  have k: "getPackagePath ?x ''/Volumes/JDK 11'' ?sa = Inr ''/Volumes/JDK 11/jdk-11.pkg''"
    unfolding getPackagePath_def fs1
    by (simp add: endsWith_def host_defs mounted_def script_defs)
  have e1: "existsSync (files ?sa) ''/Volumes/JDK 11/jdk-11.pkg''"
    unfolding fs1 by (simp add: host_defs mounted_def)
  have b1: "readdirSync (files ?sa) JDK_FOLDER = Some [''jdk-8.jdk'']"
    unfolding fs1 by (simp add: host_defs mounted_def JDK_FOLDER_def)
  have r1: "readdirSync (files (runPkgInstaller ?x ''/Volumes/JDK 11/jdk-11.pkg'' ?sa)) JDK_FOLDER
              = Some [''jdk-8.jdk'', ''jdk-11.jdk'']"
    unfolding runPkgInstaller_fields fs1
    by (simp add: darwin_host_def mac_tools_def with_dir_def installer_cmd_def sudo_def tool_def
          quoted_def)
  have i0: "fst (installPkg ?x ''/Volumes/JDK 11/jdk-11.pkg'' ''JAVA_HOME_11_x64'' ''11'' ?sa)
              = Inr ''/Library/Java/JavaVirtualMachines/jdk-11.jdk/Contents/Home''"
    unfolding installPkg_result[OF e1 b1 r1]
    by (simp add: new_entries_def darwin_host_def posix_join_def posix_normalize_def
          JDK_FOLDER_def JDK_HOME_FOLDER_def)
  have i: "installPkg ?x ''/Volumes/JDK 11/jdk-11.pkg'' ''JAVA_HOME_11_x64'' ''11'' ?sa
             = (Inr ''/Library/Java/JavaVirtualMachines/jdk-11.jdk/Contents/Home'', ?sb)"
    using i0 by (simp add: prod_eq_iff)
  have c: "detach_cmd ?x ''/Volumes/JDK 11'' = ?d"
    by (simp add: darwin_host_def detach_cmd_def sudo_def tool_def quoted_def)
  have o: "fst (exec_tool ?x (detach_cmd ?x ''/Volumes/JDK 11'') fs) = Exit 1" for fs
    by (simp add: darwin_host_def mac_tools_def detach_cmd_def sudo_def tool_def quoted_def)
  have dt: "detach ?x ''/Volumes/JDK 11'' ?sb
              = (Inl (ExecFailed (detach_cmd ?x ''/Volumes/JDK 11'') (Exit 1)), ?sd)"
    by (simp add: prod_eq_iff detach_def exec_fields(4) o)
  show ?thesis
    using installJDK_detach_failure[OF p v a g k i dt, of "''/tmp/out''"] c
    by simp
qed

subsection \<open>Classification inside \<^verbatim>\<open>getJava\<close>\<close>

lemma getInputRequired_Inr: "getInputRequired x name = Inr v \<Longrightarrow> inputs x name = Some v"
  by (auto simp: getInputRequired_def split: option.splits if_splits)

lemma cleanDestination_execs:
  "execs (trace (snd (cleanDestination x loc s))) = execs (trace s)"
  by (simp add: cleanDestination_def Let_def execs_append split: option.splits prod.splits)

lemma getJava_fromLocal_unsupported:
  assumes "inputs x ''jdkFile'' = Some f"
    and "getSupportedFileEnding f = Inl err"
  shows "isl (fst (getJava_fromLocal x loc ejh vs s))
         \<and> execs (trace (snd (getJava_fromLocal x loc ejh vs s))) = execs (trace s)"
  using assms
  by (simp add: getJava_fromLocal_def getInputRequired_def execs_append)

lemma getJava_fromAzure_unsupported:
  assumes "inputs x ''azureCommonVirtualFile'' = Some f"
    and "getSupportedFileEnding f = Inl err"
  shows "isl (fst (getJava_fromAzure x loc ejh vs s))
         \<and> execs (trace (snd (getJava_fromAzure x loc ejh vs s))) = execs (trace s)"
  using assms
  by (simp add: getJava_fromAzure_def Let_def execs_append split: sum.splits prod.splits)

lemma resolve_unsupported:
  assumes "inputs x (if fromAzure then ''azureCommonVirtualFile'' else ''jdkFile'') = Some f"
    and "getSupportedFileEnding f = Inl err"
  shows "isl (fst (resolve x [] False fromAzure loc ejh vs s))
         \<and> execs (trace (snd (resolve x [] False fromAzure loc ejh vs s))) = execs (trace s)"
  using assms getJava_fromLocal_unsupported[of x f err loc ejh vs s]
    getJava_fromAzure_unsupported[of x f err loc ejh vs s]
  by (simp add: resolve_def split: if_splits)

lemma getJava_unsupported:
  assumes miss: "evaluateVersions x (findLocalToolVersions x ''Java'' (files s)) versionSpec = []"
    and src: "inputs x ''jdkSourceOption'' \<noteq> Some ''PreInstalled''"
    and inp: "inputs x (if inputs x ''jdkSourceOption'' = Some ''AzureStorage''
                        then ''azureCommonVirtualFile'' else ''jdkFile'') = Some f"
    and bad: "getSupportedFileEnding f = Inl err"
  shows "isl (fst (getJava x versionSpec s))
         \<and> execs (trace (snd (getJava x versionSpec s))) = execs (trace s)"
proof (cases "getInputRequired x ''jdkSourceOption''")
  case (Inl e)
  then show ?thesis by (simp add: getJava_def)
next
  case opt: (Inr jdkSourceOption)
  note o = getInputRequired_Inr[OF opt]
  show ?thesis
  proof (cases "getInputRequired x ''jdkDestinationDirectory''")
    case (Inl e)
    with opt show ?thesis by (simp add: getJava_def)
  next
    case loc: (Inr extractLocation)
    show ?thesis
    proof (cases "getInputRequired x ''jdkArchitectureOption''")
      case (Inl e)
      with opt loc show ?thesis by (simp add: getJava_def)
    next
      case arch: (Inr a)
      let ?s1 = "emit (Debug ''Trying to get tool from local cache first'') s"
      let ?ejh = "''JAVA_HOME_'' @ versionSpec @ ''_'' @ a"
      obtain r2 s2 where c: "cleanDestination x extractLocation ?s1 = (r2, s2)"
        by fastforce
      have e2: "execs (trace s2) = execs (trace s)"
        using cleanDestination_execs[of x extractLocation ?s1] c by (simp add: execs_append)
      show ?thesis
      proof (cases r2)
        case (Inl e)
        with opt loc arch c e2 show ?thesis by (simp add: getJava_def)
      next
        case (Inr u)
        let ?az = "''AzureStorage'' = jdkSourceOption"
        have pre: "\<not> ''PreInstalled'' = jdkSourceOption"
          using src o by auto
        have inp': "inputs x (if ?az then ''azureCommonVirtualFile'' else ''jdkFile'') = Some f"
          using inp o by (auto split: if_splits)
        obtain r3 s3 where r: "resolve x [] False ?az extractLocation ?ejh versionSpec s2 = (r3, s3)"
          by fastforce
        have r3: "isl r3" and e3: "execs (trace s3) = execs (trace s2)"
          using resolve_unsupported[OF inp' bad, of extractLocation ?ejh versionSpec s2] r
          by simp_all
        from r3 obtain e where "r3 = Inl e" by (cases r3) auto
        with opt loc arch c Inr r e2 e3 miss pre show ?thesis
          by (simp add: getJava_def)
      qed
    qed
  qed
qed

text \<open>
  C7. \<^verbatim>\<open>getSupportedFileEnding\<close> returns the first entry of
  \<^verbatim>\<open>['.tar', '.tar.gz', '.zip', '.7z', '.dmg', '.pkg']\<close> that the file name ends with,
  compared character by character, and throws \<^verbatim>\<open>UnsupportedFileExtension\<close> exactly
  when the name ends with none of them. When \<^verbatim>\<open>getJava\<close> reaches the classification of
  such a name (the tool cache has no match and the source is not \<^verbatim>\<open>PreInstalled\<close>), it
  fails and has started no external program.
\<close>

theorem getSupportedFileEnding_first_suffix:
  "supportedFileEndings = [''.tar'', ''.tar.gz'', ''.zip'', ''.7z'', ''.dmg'', ''.pkg'']
   \<and> (getSupportedFileEnding fileName = Inr ending \<longleftrightarrow>
        (\<exists>i < length supportedFileEndings.
           supportedFileEndings ! i = ending \<and> suffix ending fileName \<and>
           (\<forall>j < i. \<not> suffix (supportedFileEndings ! j) fileName)))
   \<and> (getSupportedFileEnding fileName = Inl err \<longleftrightarrow>
        err = UnsupportedFileExtension \<and> (\<forall>e \<in> set supportedFileEndings. \<not> suffix e fileName))
   \<and> ((\<forall>e \<in> set supportedFileEndings. \<not> suffix e fileName)
        \<and> evaluateVersions x (findLocalToolVersions x ''Java'' (files s)) versionSpec = []
        \<and> inputs x ''jdkSourceOption'' \<noteq> Some ''PreInstalled''
        \<and> inputs x (if inputs x ''jdkSourceOption'' = Some ''AzureStorage''
                     then ''azureCommonVirtualFile'' else ''jdkFile'') = Some fileName
        \<longrightarrow> isl (fst (getJava x versionSpec s))
            \<and> execs (trace (snd (getJava x versionSpec s))) = execs (trace s))"
proof -
  have "isl (fst (getJava x versionSpec s))
          \<and> execs (trace (snd (getJava x versionSpec s))) = execs (trace s)"
    if "\<forall>e \<in> set supportedFileEndings. \<not> suffix e fileName"
      and "evaluateVersions x (findLocalToolVersions x ''Java'' (files s)) versionSpec = []"
      and "inputs x ''jdkSourceOption'' \<noteq> Some ''PreInstalled''"
      and "inputs x (if inputs x ''jdkSourceOption'' = Some ''AzureStorage''
                     then ''azureCommonVirtualFile'' else ''jdkFile'') = Some fileName"
  proof -
    have "getSupportedFileEnding fileName = Inl UnsupportedFileExtension"
      using that(1) by (simp add: getSupportedFileEnding_Inl)
    from getJava_unsupported[OF that(2,3,4) this] show ?thesis .
  qed
  then show ?thesis
    using getSupportedFileEnding_Inr[of fileName ending] getSupportedFileEnding_Inl[of fileName err]
    by (simp add: supportedFileEndings_def)
qed

lemmas getJava_defs =
  getJava_def run_def resolve_def publish_def cleanDestination_def getJava_fromLocal_def
  getJava_fromAzure_def getInputRequired_def setVariable_def js_string_def task_inputs_def
  cached_host_def

theorem getSupportedFileEnding_first_suffix_witness:
  "getSupportedFileEnding ''/tmp/jdk-11.exe'' = Inl UnsupportedFileExtension
   \<and> getSupportedFileEnding ''JDK-11.ZIP'' = Inl UnsupportedFileExtension
   \<and> getSupportedFileEnding ''jdk-11.tar.gz'' = Inr ''.tar.gz''
   \<and> isl (fst (getJava
        (darwin_host (task_inputs ''LocalDirectory'' ''/tmp/jdk-11.exe'')
           (mac_tools id (Exit 0) id (Exit 0)))
        ''11'' (start agent_fs agent_vars)))
   \<and> fst (getJava
        (darwin_host (task_inputs ''LocalDirectory'' ''/tmp/jdk-11.exe'')
           (mac_tools id (Exit 0) id (Exit 0)))
        ''11'' (start agent_fs agent_vars)) = Inl UnsupportedFileExtension
   \<and> execs (trace (snd (getJava
        (darwin_host (task_inputs ''LocalDirectory'' ''/tmp/jdk-11.exe'')
           (mac_tools id (Exit 0) id (Exit 0)))
        ''11'' (start agent_fs agent_vars)))) = []"
proof -
  let ?x = "darwin_host (task_inputs ''LocalDirectory'' ''/tmp/jdk-11.exe'')
              (mac_tools id (Exit 0) id (Exit 0))"
  let ?s = "start agent_fs agent_vars"
  have n1: "\<forall>e \<in> set supportedFileEndings. \<not> suffix e ''/tmp/jdk-11.exe''"
    by (simp add: supportedFileEndings_def endsWith_suffix[symmetric] endsWith_def)
  have n2: "\<forall>e \<in> set supportedFileEndings. \<not> suffix e ''JDK-11.ZIP''"
    by (simp add: supportedFileEndings_def endsWith_suffix[symmetric] endsWith_def)
  have y: "\<exists>i < length supportedFileEndings.
             supportedFileEndings ! i = ''.tar.gz'' \<and> suffix ''.tar.gz'' ''jdk-11.tar.gz'' \<and>
             (\<forall>j < i. \<not> suffix (supportedFileEndings ! j) ''jdk-11.tar.gz'')"
    by (rule exI[of _ 1])
       (simp add: supportedFileEndings_def endsWith_suffix[symmetric] endsWith_def)
  have m: "evaluateVersions ?x (findLocalToolVersions ?x ''Java'' (files ?s)) ''11'' = []"
    by (simp add: darwin_host_def)
  have p: "inputs ?x ''jdkSourceOption'' \<noteq> Some ''PreInstalled''"
    by (simp add: darwin_host_def task_inputs_def)
  have f: "inputs ?x (if inputs ?x ''jdkSourceOption'' = Some ''AzureStorage''
                      then ''azureCommonVirtualFile'' else ''jdkFile'') = Some ''/tmp/jdk-11.exe''"
    by (simp add: darwin_host_def task_inputs_def)
  have t: "execs (trace ?s) = []"
    by (simp add: start_def)
  have c: "getSupportedFileEnding ''/tmp/jdk-11.exe'' = Inl UnsupportedFileExtension"
    using n1 by (simp add: getSupportedFileEnding_Inl)
  have g: "fst (getJava ?x ''11'' ?s) = Inl UnsupportedFileExtension"
    by (simp add: getJava_def resolve_def cleanDestination_def getJava_fromLocal_def
          getInputRequired_def task_inputs_def darwin_host_def c Let_def)
  show ?thesis
    using g getSupportedFileEnding_first_suffix
            [where fileName = "''/tmp/jdk-11.exe''" and err = UnsupportedFileExtension
               and x = ?x and s = ?s and versionSpec = "''11''"]
          getSupportedFileEnding_first_suffix
            [where fileName = "''JDK-11.ZIP''" and err = UnsupportedFileExtension]
          getSupportedFileEnding_first_suffix
            [where fileName = "''jdk-11.tar.gz''" and ending = "''.tar.gz''"]
          n1 n2 y m p f t
    by simp
qed

text \<open>
  C4. With a match in the tool cache \<^verbatim>\<open>getJava\<close> leaves \<^verbatim>\<open>jdkDirectory\<close> undefined:
  both variables are set, to \<^verbatim>\<open>undefined\<close>, \<^verbatim>\<open>path.join\<close> then throws, and \<^verbatim>\<open>run\<close>
  reports the task as failed with the two variables set.
\<close>

theorem run_tool_cache_hit:
  "trace (run (cached_host (task_inputs ''LocalDirectory'' ''/tmp/jdk-11.pkg''))
            (start agent_fs agent_vars))
     = [Debug ''Trying to get tool from local cache first'',
        ConsoleLog ''Info_ResolvedToolFromCache'' [''11.0.2''],
        ConsoleLog ''SetJavaHome'' [''undefined''],
        ConsoleLog ''SetExtendedJavaHome'' [''JAVA_HOME_11_x64'', ''undefined''],
        SetVariable ''JAVA_HOME'' None,
        SetVariable ''JAVA_HOME_11_x64'' None,
        TaskError TypeError,
        SetResult (Failed TypeError)]
   \<and> variables (run (cached_host (task_inputs ''LocalDirectory'' ''/tmp/jdk-11.pkg''))
                   (start agent_fs agent_vars)) ''JAVA_HOME'' = Some []"
  by (simp add: getJava_defs host_defs emit_def Let_def)

end
